theory Spec2Isabelle
  imports Complex_Main
begin

section \<open>The Segment of the AudioUltra regions\<close>

text \<open>
  A shallow embedding of \<^verbatim>\<open>src/lib/AudioUltra/Regions/Segment.ts\<close>.

  A JavaScript \<^verbatim>\<open>number\<close> is modelled as a \<open>real\<close>, and \<^verbatim>\<open>NaN\<close> and the infinities
  are no values of the model. The arithmetic of the methods is exact, but for the drag
  step, which is also given with the rounding of IEEE doubles written out
  (\<open>handleDragRounded\<close>): the width that a move keeps depends on it. An optional argument or an
  optional field of an options object (\<^verbatim>\<open>undefined\<close> when absent) is an \<open>option\<close>.
  A method that mutates \<^verbatim>\<open>this\<close> takes the state and returns the new one.
\<close>

subsection \<open>Helpers of Common/Utils\<close>

text \<open>
  Modelled from the spec: \<^verbatim>\<open>clamp\<close> of Common/Utils, which is not among the sources.
  The spec only says that values are clamped to a lower and an upper bound;
  \<open>clamp value lo hi\<close> is the value brought into \<open>[lo, hi]\<close>. Every call the
  theorems below look at has \<open>lo \<le> hi\<close>, where the two usual ways of writing it agree
  (lemma \<open>clamp_alt\<close>).
\<close>

definition clamp :: "real \<Rightarrow> real \<Rightarrow> real \<Rightarrow> real" where
  "clamp val lo hi = min (max val lo) hi"

text \<open>
  Modelled from the spec: \<^verbatim>\<open>pixelsToTime\<close> of Common/Utils, which is not among the
  sources: \<^verbatim>\<open>pixelToTime(px, effectiveWidth, duration) = px/effectiveWidth * duration\<close>.
  With \<open>effectiveWidth = 0\<close> JavaScript yields \<^verbatim>\<open>NaN\<close> or an infinity and HOL yields
  \<open>0\<close>: the theorems that go through this function assume a width other than \<open>0\<close>.
\<close>

definition pixelsToTime :: "real \<Rightarrow> real \<Rightarrow> real \<Rightarrow> real" where
  "pixelsToTime px effectiveWidth dur = px / effectiveWidth * dur"

subsection \<open>Colours (Common/Color)\<close>

type_synonym channels = "real \<times> real \<times> real \<times> real"

text \<open>
  Modelled from the spec: the \<^verbatim>\<open>RgbaColorArray\<close> of Common/Color, which is not among
  the sources: "a mutable color value with an internal base and a derived current
  (darkened) state". \<open>base\<close> is the base value and \<open>rgba\<close> the current one. A colour
  given as a CSS string is taken as already parsed into its four channels.
  The arithmetic of darkening belongs to the absent module, so it is a parameter
  \<open>dk\<close> of every operation that darkens: \<open>dk amount c\<close> are the channels \<open>c\<close> darkened
  by \<open>amount\<close>.
\<close>

record RgbaColorArray =
  base :: channels
  rgba :: channels

type_synonym darkening = "real \<Rightarrow> channels \<Rightarrow> channels"

text \<open>Modelled from the spec: \<^verbatim>\<open>rgba(color)\<close>, a colour whose current value is its base.\<close>

definition mk_rgba :: "channels \<Rightarrow> RgbaColorArray" where
  "mk_rgba c = \<lparr>base = c, rgba = c\<rparr>"

text \<open>Modelled from the spec: \<^verbatim>\<open>color.clone()\<close>, a copy (the model has no aliasing).\<close>

definition clone :: "RgbaColorArray \<Rightarrow> RgbaColorArray" where
  "clone c = c"

text \<open>Modelled from the spec: \<^verbatim>\<open>color.darken(amount)\<close> darkens the current value and
  keeps the base.\<close>

definition darken :: "darkening \<Rightarrow> real \<Rightarrow> RgbaColorArray \<Rightarrow> RgbaColorArray" where
  "darken dk amount c = c\<lparr>rgba := dk amount (rgba c)\<rparr>"

text \<open>Modelled from the spec: \<^verbatim>\<open>color.reset()\<close> "restores base color".\<close>

definition reset :: "RgbaColorArray \<Rightarrow> RgbaColorArray" where
  "reset c = c\<lparr>rgba := base c\<rparr>"

text \<open>Modelled from the spec: \<^verbatim>\<open>color.update(color)\<close> "sets base" (and with it the
  current value) to the colour given.\<close>

definition colorUpdate :: "channels \<Rightarrow> RgbaColorArray \<Rightarrow> RgbaColorArray" where
  "colorUpdate c col = col\<lparr>base := c, rgba := c\<rparr>"

text \<open>One darkening, for the concrete inputs below: the three colour channels scaled
  by \<open>1 - amount\<close>.\<close>

fun scaleDarken :: darkening where
  "scaleDarken amount (r, g, b, a) = (r * (1 - amount), g * (1 - amount), b * (1 - amount), a)"

subsection \<open>Data\<close>

text \<open>\<^verbatim>\<open>SegmentOptions\<close>, as the constructor takes it (\<open>start\<close> and \<open>end\<close> required).\<close>

record SegmentOptions =
  opt_id :: "string option"
  opt_start :: real
  opt_end :: real
  opt_color :: "channels option"
  opt_selected :: "bool option"
  opt_updateable :: "bool option"
  opt_deleteable :: "bool option"
  opt_visible :: "bool option"

text \<open>\<^verbatim>\<open>Partial<SegmentOptions>\<close>, as \<^verbatim>\<open>update\<close> takes it: every field optional.\<close>

record PartialSegmentOptions =
  upd_id :: "string option"
  upd_start :: "real option"
  upd_end :: "real option"
  upd_color :: "channels option"
  upd_selected :: "bool option"
  upd_updateable :: "bool option"
  upd_deleteable :: "bool option"
  upd_visible :: "bool option"

text \<open>The keys of \<^verbatim>\<open>SegmentEvents\<close> and of \<^verbatim>\<open>SegmentGlobalEvents\<close>.\<close>

datatype LocalEvent =
  Update | UpdateEnd | MouseEnter | MouseOver | MouseLeave | MouseDown | MouseUp | Click

datatype GlobalEvent =
  RegionCreated | RegionUpdated | RegionSelected | RegionUpdatedEnd | RegionRemoved

text \<open>A call of \<^verbatim>\<open>this.invoke\<close> (local) or of \<^verbatim>\<open>this.waveform.invoke\<close> (global).\<close>

datatype Invocation = Local LocalEvent | Global GlobalEvent

datatype CursorSymbol = crosshair | colResize | grab | grabbing

text \<open>\<^verbatim>\<open>draggingStartPosition\<close>: the grab position and the bounds recorded at pointer-down
  (\<open>grabStart\<close> and \<open>grabEnd\<close> are its \<^verbatim>\<open>start\<close> and \<^verbatim>\<open>end\<close>).\<close>

record DraggingStartPosition =
  grabPosition :: real
  grabStart :: real
  grabEnd :: real

record GrabbingEdge =
  isRightEdge :: bool
  isLeftEdge :: bool

text \<open>
  The fields of a \<^verbatim>\<open>Segment\<close> object. \<open>segId\<close> is \<^verbatim>\<open>id\<close> and \<open>end_t\<close> is \<^verbatim>\<open>end\<close>
  (both names are taken in Isabelle). The references to the waveform, the visualizer
  and the controller are not fields of the model: what the code reads from them is
  the record \<open>View\<close>, what it changes in them is in \<open>World\<close>.

  Modelled from the spec: \<open>listeners\<close> and \<open>isDestroyed\<close> are the state of the base class
  \<^verbatim>\<open>Events\<close> (Common/Events, not among the sources): the local events that have a
  handler, and the mark that \<^verbatim>\<open>destroy\<close> sets.
\<close>

record Segment =
  segId :: string
  start :: real
  end_t :: real
  color :: RgbaColorArray
  handleColor :: RgbaColorArray
  selected :: bool
  highlighted :: bool
  updateable :: bool
  deleteable :: bool
  visible :: bool
  handleWidth :: real
  isDragging :: bool
  draggingStartPosition :: "DraggingStartPosition option"
  isGrabbingEdge :: GrabbingEdge
  listeners :: "LocalEvent list"
  isDestroyed :: bool

text \<open>
  What the segment reads from its collaborators and never writes:
  \<^verbatim>\<open>waveform.duration\<close>, \<^verbatim>\<open>waveform.zoom\<close>, \<^verbatim>\<open>visualizer.width\<close>,
  \<^verbatim>\<open>visualizer.getScrollLeft()\<close>, \<^verbatim>\<open>visualizer.zoomedWidth\<close>,
  \<^verbatim>\<open>controller.layerGroup.isVisible\<close> and \<^verbatim>\<open>controller.isLocked\<close>.
\<close>

record View =
  duration :: real
  zoom :: real
  visWidth :: real
  scrollLeft :: real
  zoomedWidth :: real
  layerGroupVisible :: bool
  isLocked :: bool

text \<open>
  The segment with what its methods change outside of it: the invocations made so far
  (oldest first), \<^verbatim>\<open>waveform.playing\<close>, the cursor set by \<^verbatim>\<open>waveform.cursor.set\<close>
  (symbol and focus id), and whether the \<^verbatim>\<open>mousemove\<close> and \<^verbatim>\<open>mouseup\<close> handlers are
  attached to the document.
\<close>

record World =
  seg :: Segment
  invoked :: "Invocation list"
  playing :: bool
  cursor :: "CursorSymbol \<times> string"
  documentListeners :: bool

text \<open>
  A mouse event, as the segment reads it through helpers that are not among the
  sources: \<open>cursorX\<close> is \<^verbatim>\<open>getCursorPositionX(e, container)\<close>, \<open>cursorTime\<close> is
  \<^verbatim>\<open>getCursorTime(e, visualizer, duration)\<close> and \<open>overrideKey\<close> is
  \<^verbatim>\<open>controller.isOverrideKeyPressed(e)\<close>.
\<close>

record MouseEvent =
  cursorX :: real
  cursorTime :: real
  overrideKey :: bool

datatype error = StartNegative | EndNegative

subsection \<open>Construction\<close>

text \<open>
  The constructor. \<open>fresh\<close> is the id that \<^verbatim>\<open>nanoid(5)\<close> would generate. The two
  \<^verbatim>\<open>throw\<close>s are the two errors. Fields the constructor does not assign keep the
  initialisers of the class (\<open>color = rgba('#ccc')\<close>, \<open>highlighted = false\<close>,
  \<open>deleteable = true\<close>). \<^verbatim>\<open>initialize\<close> subscribes \<^verbatim>\<open>mouseOver\<close> and \<^verbatim>\<open>mouseDown\<close>.
\<close>

definition constructor :: "darkening \<Rightarrow> string \<Rightarrow> SegmentOptions \<Rightarrow> error + Segment" where
  "constructor dk fresh options =
    (if opt_start options < 0 then Inl StartNegative
     else if opt_end options < 0 then Inl EndNegative
     else Inr
       \<lparr>segId = (case opt_id options of Some i \<Rightarrow> i | None \<Rightarrow> fresh),
        start = opt_start options,
        end_t = opt_end options,
        color = mk_rgba (204, 204, 204, 1),
        handleColor = darken dk 0.6 (clone (mk_rgba (204, 204, 204, 1))),
        selected = (case opt_selected options of Some b \<Rightarrow> b | None \<Rightarrow> False),
        highlighted = False,
        updateable = (case opt_updateable options of Some b \<Rightarrow> b | None \<Rightarrow> True),
        deleteable = True,
        visible = (case opt_visible options of Some b \<Rightarrow> b | None \<Rightarrow> True),
        handleWidth = 2,
        isDragging = False,
        draggingStartPosition = None,
        isGrabbingEdge = \<lparr>isRightEdge = False, isLeftEdge = False\<rparr>,
        listeners = [MouseOver, MouseDown],
        isDestroyed = False\<rparr>)"

subsection \<open>Mutation\<close>

text \<open>\<^verbatim>\<open>update(options)\<close>: the guard, then one assignment for each field given.\<close>

definition update :: "PartialSegmentOptions \<Rightarrow> Segment \<Rightarrow> Segment" where
  "update options s =
    (if \<not> updateable s \<and> (upd_updateable options \<noteq> None \<and> upd_updateable options = Some False)
     then s
     else
       let s1 = (case upd_updateable options of Some u \<Rightarrow> s\<lparr>updateable := u\<rparr> | None \<Rightarrow> s);
           s2 = (case upd_deleteable options of Some d \<Rightarrow> s1\<lparr>deleteable := d\<rparr> | None \<Rightarrow> s1);
           s3 = (case upd_start options of Some x \<Rightarrow> s2\<lparr>start := x\<rparr> | None \<Rightarrow> s2);
           s4 = (case upd_end options of Some x \<Rightarrow> s3\<lparr>end_t := x\<rparr> | None \<Rightarrow> s3);
           s5 = (case upd_selected options of Some b \<Rightarrow> s4\<lparr>selected := b\<rparr> | None \<Rightarrow> s4);
           s6 = (case upd_visible options of Some b \<Rightarrow> s5\<lparr>visible := b\<rparr> | None \<Rightarrow> s5)
       in (case upd_color options of Some c \<Rightarrow> s6\<lparr>color := mk_rgba c\<rparr> | None \<Rightarrow> s6))"

text \<open>\<^verbatim>\<open>this.invoke('update', [this]); this.waveform.invoke('regionUpdated', [this])\<close>,
  the pair that ends most mutators.\<close>

definition invokeUpdate :: "World \<Rightarrow> World" where
  "invokeUpdate w = w\<lparr>invoked := invoked w @ [Local Update, Global RegionUpdated]\<rparr>"

definition setVisibility :: "bool \<Rightarrow> World \<Rightarrow> World" where
  "setVisibility v w =
    (if v = visible (seg w) then w
     else invokeUpdate (w\<lparr>seg := (seg w)\<lparr>visible := v\<rparr>\<rparr>))"

definition setColorDarken :: "darkening \<Rightarrow> real \<Rightarrow> Segment \<Rightarrow> Segment" where
  "setColorDarken dk val s =
    (if rgba (color s) = base (color s) then s\<lparr>color := darken dk val (color s)\<rparr> else s)"

definition setColor :: "darkening \<Rightarrow> channels \<Rightarrow> Segment \<Rightarrow> Segment" where
  "setColor dk c s =
    s\<lparr>color := colorUpdate c (color s),
      handleColor := darken dk 0.6 (colorUpdate c (handleColor s))\<rparr>"

definition updateColor :: "darkening \<Rightarrow> channels \<Rightarrow> World \<Rightarrow> World" where
  "updateColor dk c w =
    (if \<not> updateable (seg w) then w
     else invokeUpdate (w\<lparr>seg := setColor dk c (seg w)\<rparr>))"

text \<open>\<^verbatim>\<open>handleSelected(selected?)\<close>. The test \<^verbatim>\<open>if (selected)\<close> reads the argument, not
  the field. \<^verbatim>\<open>waveform.player.pause()\<close> is taken to end the playback: it clears
  \<open>playing\<close>.\<close>

definition handleSelected :: "darkening \<Rightarrow> bool option \<Rightarrow> World \<Rightarrow> World" where
  "handleSelected dk sel w =
    (if \<not> updateable (seg w) then w
     else
       let w1 = (if playing w then w\<lparr>playing := False\<rparr> else w);
           s1 = (seg w1)\<lparr>selected := (case sel of Some b \<Rightarrow> b | None \<Rightarrow> \<not> selected (seg w1))\<rparr>;
           s2 = (if sel = Some True then setColorDarken dk 0.5 s1
                 else s1\<lparr>color := reset (color s1)\<rparr>)
       in invokeUpdate (w1\<lparr>seg := s2\<rparr>))"

definition handleHighlighted :: "darkening \<Rightarrow> bool option \<Rightarrow> World \<Rightarrow> World" where
  "handleHighlighted dk hl w =
    (if \<not> updateable (seg w) \<or> selected (seg w) then w
     else
       let s1 = (seg w)\<lparr>highlighted := (case hl of Some b \<Rightarrow> b | None \<Rightarrow> \<not> highlighted (seg w))\<rparr>;
           s2 = (if highlighted s1 then setColorDarken dk 0.5 s1
                 else s1\<lparr>color := reset (color s1)\<rparr>)
       in invokeUpdate (w\<lparr>seg := s2\<rparr>))"

definition updatePosition :: "real option \<Rightarrow> real option \<Rightarrow> World \<Rightarrow> World" where
  "updatePosition start_arg end_arg w =
    (if \<not> updateable (seg w) then w
     else
       let newStart = (case start_arg of Some x \<Rightarrow> x | None \<Rightarrow> start (seg w));
           newEnd = (case end_arg of Some x \<Rightarrow> x | None \<Rightarrow> end_t (seg w));
           (newStart', newEnd') = (if newStart > newEnd then (newEnd, newStart) else (newStart, newEnd))
       in invokeUpdate (w\<lparr>seg := (seg w)\<lparr>start := newStart', end_t := newEnd'\<rparr>\<rparr>))"

definition remove :: "World \<Rightarrow> World" where
  "remove w =
    (if \<not> deleteable (seg w) then w
     else w\<lparr>invoked := invoked w @ [Global RegionRemoved]\<rparr>)"

text \<open>
  Modelled from the spec: \<^verbatim>\<open>super.destroy()\<close> of the base class \<^verbatim>\<open>Events\<close>, which is not
  among the sources: it "releases all local listeners and marks destroyed".
\<close>

definition events_destroy :: "Segment \<Rightarrow> Segment" where
  "events_destroy s = s\<lparr>listeners := [], isDestroyed := True\<rparr>"

definition destroy :: "bool \<Rightarrow> World \<Rightarrow> World" where
  "destroy notify w =
    (if \<not> deleteable (seg w) \<or> isDestroyed (seg w) then w
     else
       let w1 = (if notify then remove w else w)
       in w1\<lparr>seg := events_destroy (seg w1)\<rparr>)"

subsection \<open>Geometry\<close>

definition xStart :: "View \<Rightarrow> Segment \<Rightarrow> real" where
  "xStart v s =
    (let offsetX = (start s / duration v * visWidth v) - (visWidth v * scrollLeft v)
     in offsetX * zoom v)"

definition width :: "View \<Rightarrow> Segment \<Rightarrow> real" where
  "width v s =
    (let regionWidth = (end_t s - start s) / duration v * visWidth v
     in regionWidth * zoom v)"

definition xEnd :: "View \<Rightarrow> Segment \<Rightarrow> real" where
  "xEnd v s = xStart v s + width v s"

subsection \<open>The drag gesture\<close>

definition layerName :: "Segment \<Rightarrow> string" where
  "layerName s = ''region-'' @ segId s"

definition requiresCursorFocus :: "CursorSymbol \<Rightarrow> bool" where
  "requiresCursorFocus symbol = (symbol \<notin> set [crosshair])"

definition switchCursor :: "CursorSymbol \<Rightarrow> bool \<Rightarrow> World \<Rightarrow> World" where
  "switchCursor symbol shouldGrabFocus w =
    w\<lparr>cursor := (symbol,
        if shouldGrabFocus \<and> requiresCursorFocus symbol then layerName (seg w) else '''')\<rparr>"

definition edgeGrabCheck :: "View \<Rightarrow> MouseEvent \<Rightarrow> Segment \<Rightarrow> GrabbingEdge" where
  "edgeGrabCheck v e s =
    (let handleTime = pixelsToTime (handleWidth s) (zoomedWidth v) (duration v)
     in \<lparr>isRightEdge = (cursorTime e > end_t s - handleTime),
         isLeftEdge = (cursorTime e < start s + handleTime)\<rparr>)"

definition mouseDown :: "View \<Rightarrow> MouseEvent \<Rightarrow> World \<Rightarrow> World" where
  "mouseDown v e w =
    (if \<not> updateable (seg w) \<or> \<not> layerGroupVisible v then w
     else if overrideKey e \<or> isLocked v then w
     else
       let x = cursorX e + scrollLeft v
       in w\<lparr>seg := (seg w)
              \<lparr>draggingStartPosition :=
                 Some \<lparr>grabPosition = x, grabStart = start (seg w), grabEnd = end_t (seg w)\<rparr>,
               isGrabbingEdge := edgeGrabCheck v e (seg w)\<rparr>,
            documentListeners := True\<rparr>)"

text \<open>
  \<^verbatim>\<open>handleDrag(e)\<close>. \<open>freezeStart\<close> is \<^verbatim>\<open>isRightEdge\<close> and \<open>freezeEnd\<close> is
  \<^verbatim>\<open>isLeftEdge\<close>, as the destructuring of the source renames them. The bounds it
  computes from are those recorded at pointer-down, not the current ones. The
  arithmetic here is exact; \<open>handleDragRounded\<close> below is the same step with the
  rounding of the doubles.
  \<^verbatim>\<open>e.preventDefault()\<close> and \<^verbatim>\<open>e.stopPropagation()\<close> act on the event only and
  change nothing here.
\<close>

definition handleDrag :: "View \<Rightarrow> MouseEvent \<Rightarrow> World \<Rightarrow> World" where
  "handleDrag v e w =
    (if \<not> updateable (seg w) then w
     else case draggingStartPosition (seg w) of
       None \<Rightarrow> w
     | Some d \<Rightarrow>
         let w1 = w\<lparr>seg := (seg w)\<lparr>isDragging := True\<rparr>\<rparr>;
             freezeStart = isRightEdge (isGrabbingEdge (seg w));
             freezeEnd = isLeftEdge (isGrabbingEdge (seg w));
             isResizing = (freezeStart \<or> freezeEnd);
             currentPosition0 = cursorX e + scrollLeft v;
             currentPosition = (if currentPosition0 < 0 then 0 else currentPosition0);
             newPosition = currentPosition - grabPosition d;
             seconds = pixelsToTime newPosition (zoomedWidth v) (duration v);
             timeDiff = grabEnd d - grabStart d;
             newStart = (if freezeEnd then grabStart d + seconds
                         else clamp (grabStart d + seconds) 0 (duration v - timeDiff));
             startTime = (if freezeStart then grabStart d else newStart);
             endTime = (if freezeEnd then grabEnd d
                        else clamp (grabEnd d + seconds)
                               (newStart + (if isResizing then 0 else timeDiff)) (duration v));
             w2 = (if freezeStart \<or> freezeEnd then switchCursor colResize True w1
                   else switchCursor grabbing True w1)
         in updatePosition (Some (clamp startTime 0 (duration v)))
              (Some (clamp endTime 0 (duration v))) w2)"

subsection \<open>The drag step in double arithmetic\<close>



text \<open>
  Modelled from the spec: \<^verbatim>\<open>pixelsToTime\<close> of Common/Utils, which is not among the
  sources, with its two operations \<^verbatim>\<open>px/effectiveWidth * duration\<close> rounded by \<open>rnd\<close>,
  the division first.
\<close>

definition pixelsToTimeRounded :: "(real \<Rightarrow> real) \<Rightarrow> real \<Rightarrow> real \<Rightarrow> real \<Rightarrow> real" where
  "pixelsToTimeRounded rnd px effectiveWidth dur = rnd (rnd (px / effectiveWidth) * dur)"

text \<open>
  \<^verbatim>\<open>handleDrag(e)\<close> with the rounding written out: \<open>rnd\<close> is applied to the result of
  every addition, subtraction, multiplication and division of the source, in the
  order the source computes them. With \<open>rnd = fl\<close> this is the step in the doubles of
  the program; with \<open>rnd\<close> the identity it is \<open>handleDrag\<close>, the step in exact
  arithmetic (lemma \<open>handleDragRounded_exact\<close>).
\<close>

definition handleDragRounded :: "(real \<Rightarrow> real) \<Rightarrow> View \<Rightarrow> MouseEvent \<Rightarrow> World \<Rightarrow> World" where
  "handleDragRounded rnd v e w =
    (if \<not> updateable (seg w) then w
     else case draggingStartPosition (seg w) of
       None \<Rightarrow> w
     | Some d \<Rightarrow>
         let w1 = w\<lparr>seg := (seg w)\<lparr>isDragging := True\<rparr>\<rparr>;
             freezeStart = isRightEdge (isGrabbingEdge (seg w));
             freezeEnd = isLeftEdge (isGrabbingEdge (seg w));
             isResizing = (freezeStart \<or> freezeEnd);
             currentPosition0 = rnd (cursorX e + scrollLeft v);
             currentPosition = (if currentPosition0 < 0 then 0 else currentPosition0);
             newPosition = rnd (currentPosition - grabPosition d);
             seconds = pixelsToTimeRounded rnd newPosition (zoomedWidth v) (duration v);
             timeDiff = rnd (grabEnd d - grabStart d);
             newStart = (if freezeEnd then rnd (grabStart d + seconds)
                         else clamp (rnd (grabStart d + seconds)) 0 (rnd (duration v - timeDiff)));
             startTime = (if freezeStart then grabStart d else newStart);
             endTime = (if freezeEnd then grabEnd d
                        else clamp (rnd (grabEnd d + seconds))
                               (rnd (newStart + (if isResizing then 0 else timeDiff))) (duration v));
             w2 = (if freezeStart \<or> freezeEnd then switchCursor colResize True w1
                   else switchCursor grabbing True w1)
         in updatePosition (Some (clamp startTime 0 (duration v)))
              (Some (clamp endTime 0 (duration v))) w2)"


subsection \<open>Concrete inputs\<close>

text \<open>
  The scenario of the specification: a segment \<^verbatim>\<open>{start: 10, end: 20}\<close> on a waveform
  of 100 seconds at zoom 1, seen through a viewport 1000 pixels wide that is not
  scrolled.
\<close>

definition exampleOptions :: SegmentOptions where
  "exampleOptions =
    \<lparr>opt_id = None, opt_start = 10, opt_end = 20, opt_color = None, opt_selected = None,
     opt_updateable = None, opt_deleteable = None, opt_visible = None\<rparr>"

definition exampleSegment :: Segment where
  "exampleSegment =
    \<lparr>segId = ''seg01'', start = 10, end_t = 20,
     color = \<lparr>base = (204, 204, 204, 1), rgba = (204, 204, 204, 1)\<rparr>,
     handleColor = \<lparr>base = (204, 204, 204, 1), rgba = scaleDarken 0.6 (204, 204, 204, 1)\<rparr>,
     selected = False, highlighted = False, updateable = True, deleteable = True,
     visible = True, handleWidth = 2, isDragging = False, draggingStartPosition = None,
     isGrabbingEdge = \<lparr>isRightEdge = False, isLeftEdge = False\<rparr>,
     listeners = [MouseOver, MouseDown], isDestroyed = False\<rparr>"

definition exampleView :: View where
  "exampleView =
    \<lparr>duration = 100, zoom = 1, visWidth = 1000, scrollLeft = 0, zoomedWidth = 1000,
     layerGroupVisible = True, isLocked = False\<rparr>"

definition exampleWorld :: World where
  "exampleWorld =
    \<lparr>seg = exampleSegment, invoked = [], playing = False, cursor = (crosshair, []),
     documentListeners = False\<rparr>"

text \<open>A partial options object with no field given.\<close>

definition noOptions :: PartialSegmentOptions where
  "noOptions =
    \<lparr>upd_id = None, upd_start = None, upd_end = None, upd_color = None, upd_selected = None,
     upd_updateable = None, upd_deleteable = None, upd_visible = None\<rparr>"

text \<open>A pointer at pixel \<open>x\<close> of the viewport, over second \<open>t\<close>, with no override key.\<close>

definition pointerAt :: "real \<Rightarrow> real \<Rightarrow> MouseEvent" where
  "pointerAt x t = \<lparr>cursorX = x, cursorTime = t, overrideKey = False\<rparr>"

text \<open>The value of \<^verbatim>\<open>seconds\<close> in \<^verbatim>\<open>handleDrag\<close>: the time delta of the pointer \<open>e\<close>
  against the grab \<open>d\<close>.\<close>

definition dragSeconds :: "View \<Rightarrow> MouseEvent \<Rightarrow> DraggingStartPosition \<Rightarrow> real" where
  "dragSeconds v e d =
    pixelsToTime
      ((if cursorX e + scrollLeft v < 0 then 0 else cursorX e + scrollLeft v) - grabPosition d)
      (zoomedWidth v) (duration v)"


definition leftGrab :: World where
  "leftGrab = mouseDown exampleView (pointerAt 100 10) exampleWorld"

definition rightGrab :: World where
  "rightGrab = mouseDown exampleView (pointerAt 200 20) exampleWorld"

text \<open>The example segment made non-updateable, and options that give \<open>start\<close> only.\<close>

definition lockedSegment :: Segment where
  "lockedSegment = exampleSegment\<lparr>updateable := False\<rparr>"

definition startOnly :: PartialSegmentOptions where
  "startOnly = noOptions\<lparr>upd_start := Some 5\<rparr>"

text \<open>Options whose \<open>start\<close> exceeds their \<open>end\<close>.\<close>

definition reversedOptions :: SegmentOptions where
  "reversedOptions = exampleOptions\<lparr>opt_start := 20, opt_end := 10\<rparr>"

section \<open>Properties\<close>

subsection \<open>Auxiliary facts\<close>

lemma clamp_alt: "lo \<le> hi \<Longrightarrow> clamp val lo hi = max lo (min val hi)"
  by (simp add: clamp_def min_def max_def)

lemma example_built: "constructor scaleDarken ''seg01'' exampleOptions = Inr exampleSegment"
  by (simp add: constructor_def exampleOptions_def exampleSegment_def mk_rgba_def clone_def
      darken_def)

text \<open>Pointer-down records the bounds the segment has at that moment.\<close>

lemma mouseDown_records:
  assumes "updateable (seg w)" and "layerGroupVisible v" and "\<not> overrideKey e" and "\<not> isLocked v"
  shows "draggingStartPosition (seg (mouseDown v e w)) =
      Some \<lparr>grabPosition = cursorX e + scrollLeft v, grabStart = start (seg w),
            grabEnd = end_t (seg w)\<rparr> \<and>
    isGrabbingEdge (seg (mouseDown v e w)) = edgeGrabCheck v e (seg w) \<and>
    updateable (seg (mouseDown v e w))"
  using assms by (simp add: mouseDown_def)


lemma leftGrab_eq:
  "leftGrab = exampleWorld\<lparr>seg := exampleSegment
      \<lparr>draggingStartPosition := Some \<lparr>grabPosition = 100, grabStart = 10, grabEnd = 20\<rparr>,
       isGrabbingEdge := \<lparr>isRightEdge = False, isLeftEdge = True\<rparr>\<rparr>, documentListeners := True\<rparr>"
  by (simp add: leftGrab_def mouseDown_def exampleWorld_def exampleSegment_def exampleView_def
      pointerAt_def edgeGrabCheck_def pixelsToTime_def)

lemma rightGrab_eq:
  "rightGrab = exampleWorld\<lparr>seg := exampleSegment
      \<lparr>draggingStartPosition := Some \<lparr>grabPosition = 200, grabStart = 10, grabEnd = 20\<rparr>,
       isGrabbingEdge := \<lparr>isRightEdge = True, isLeftEdge = False\<rparr>\<rparr>, documentListeners := True\<rparr>"
  by (simp add: rightGrab_def mouseDown_def exampleWorld_def exampleSegment_def exampleView_def
      pointerAt_def edgeGrabCheck_def pixelsToTime_def)

text \<open>
  The bounds a drag step commits: \<^verbatim>\<open>updatePosition\<close> stores the smaller of its two
  arguments as \<open>start\<close> and the larger as \<open>end\<close>.
\<close>

lemma handleDrag_seg:
  assumes "updateable (seg w)" and "draggingStartPosition (seg w) = Some d"
  shows "start (seg (handleDrag v e w)) =
      (let freezeStart = isRightEdge (isGrabbingEdge (seg w));
           freezeEnd = isLeftEdge (isGrabbingEdge (seg w));
           seconds = dragSeconds v e d;
           timeDiff = grabEnd d - grabStart d;
           newStart = (if freezeEnd then grabStart d + seconds
                       else clamp (grabStart d + seconds) 0 (duration v - timeDiff));
           startTime = (if freezeStart then grabStart d else newStart);
           endTime = (if freezeEnd then grabEnd d
                      else clamp (grabEnd d + seconds)
                             (newStart + (if freezeStart \<or> freezeEnd then 0 else timeDiff)) (duration v))
       in min (clamp startTime 0 (duration v)) (clamp endTime 0 (duration v)))"
    and "end_t (seg (handleDrag v e w)) =
      (let freezeStart = isRightEdge (isGrabbingEdge (seg w));
           freezeEnd = isLeftEdge (isGrabbingEdge (seg w));
           seconds = dragSeconds v e d;
           timeDiff = grabEnd d - grabStart d;
           newStart = (if freezeEnd then grabStart d + seconds
                       else clamp (grabStart d + seconds) 0 (duration v - timeDiff));
           startTime = (if freezeStart then grabStart d else newStart);
           endTime = (if freezeEnd then grabEnd d
                      else clamp (grabEnd d + seconds)
                             (newStart + (if freezeStart \<or> freezeEnd then 0 else timeDiff)) (duration v))
       in max (clamp startTime 0 (duration v)) (clamp endTime 0 (duration v)))"
  using assms
  by (simp_all add: handleDrag_def updatePosition_def invokeUpdate_def switchCursor_def
      dragSeconds_def Let_def min_def max_def)

text \<open>A drag step keeps the grab, so what holds of one step holds of every step of a
  gesture.\<close>

lemma handleDrag_keeps_grab:
  "draggingStartPosition (seg (handleDrag v e w)) = draggingStartPosition (seg w) \<and>
   isGrabbingEdge (seg (handleDrag v e w)) = isGrabbingEdge (seg w) \<and>
   updateable (seg (handleDrag v e w)) = updateable (seg w)"
  by (cases "draggingStartPosition (seg w)")
    (simp_all add: handleDrag_def updatePosition_def invokeUpdate_def switchCursor_def Let_def)

text \<open>Past its guard, \<^verbatim>\<open>update\<close> is one assignment for each field given.\<close>

lemma update_unfold:
  assumes "updateable s \<or> upd_updateable p \<noteq> Some False"
  shows "update p s =
        s\<lparr>updateable := (case upd_updateable p of Some u \<Rightarrow> u | None \<Rightarrow> updateable s),
          deleteable := (case upd_deleteable p of Some x \<Rightarrow> x | None \<Rightarrow> deleteable s),
          start := (case upd_start p of Some x \<Rightarrow> x | None \<Rightarrow> start s),
          end_t := (case upd_end p of Some x \<Rightarrow> x | None \<Rightarrow> end_t s),
          selected := (case upd_selected p of Some x \<Rightarrow> x | None \<Rightarrow> selected s),
          visible := (case upd_visible p of Some x \<Rightarrow> x | None \<Rightarrow> visible s),
          color := (case upd_color p of Some c \<Rightarrow> mk_rgba c | None \<Rightarrow> color s)\<rparr>"
proof -
  have g: "(\<not> updateable s \<and> (upd_updateable p \<noteq> None \<and> upd_updateable p = Some False)) = False"
    using assms by auto
  show ?thesis
    unfolding update_def g
    by (cases "upd_updateable p"; cases "upd_deleteable p"; cases "upd_start p"; cases "upd_end p";
        cases "upd_selected p"; cases "upd_visible p"; cases "upd_color p")
      simp_all
qed

lemma destroy_seg:
  assumes "deleteable (seg w)" and "\<not> isDestroyed (seg w)"
  shows "seg (destroy notify w) = events_destroy (seg w)"
  using assms by (simp add: destroy_def remove_def)

lemma update_events_destroy: "update p (events_destroy s) = events_destroy (update p s)"
proof (cases "updateable s \<or> upd_updateable p \<noteq> Some False")
  case True
  then have "updateable (events_destroy s) \<or> upd_updateable p \<noteq> Some False"
    by (simp add: events_destroy_def)
  then show ?thesis
    using True by (simp add: update_unfold events_destroy_def cong: option.case_cong)
next
  case False
  then show ?thesis
    by (simp add: update_def events_destroy_def)
qed

subsection \<open>Auxiliary facts on the double arithmetic\<close>

lemma handleDragRounded_exact: "handleDragRounded (\<lambda>x. x) v e w = handleDrag v e w"
  by (cases "draggingStartPosition (seg w)")
    (simp_all add: handleDragRounded_def handleDrag_def pixelsToTimeRounded_def pixelsToTime_def
      Let_def)











subsection \<open>The order of the bounds\<close>

text \<open>
  Claim C1, as amended. The claim says that construction, \<^verbatim>\<open>update(partial)\<close> and
  \<^verbatim>\<open>updatePosition\<close> all leave \<open>start \<le> end\<close>, swapping the two values when needed.
  Only \<^verbatim>\<open>updatePosition\<close> swaps. On an updateable segment it commits the smaller of
  the two values (the ones given, a missing one being the current one) as \<open>start\<close> and
  the larger as \<open>end\<close>, so \<open>start \<le> end\<close> holds afterwards. The constructor and
  \<^verbatim>\<open>update\<close> commit \<open>start\<close> and \<open>end\<close> as they are given.
\<close>

theorem updatePosition_orders_bounds:
  "(updateable (seg w) \<longrightarrow>
      start (seg (updatePosition a b w)) \<le> end_t (seg (updatePosition a b w)) \<and>
      start (seg (updatePosition a b w)) =
        min (case a of Some x \<Rightarrow> x | None \<Rightarrow> start (seg w))
            (case b of Some x \<Rightarrow> x | None \<Rightarrow> end_t (seg w)) \<and>
      end_t (seg (updatePosition a b w)) =
        max (case a of Some x \<Rightarrow> x | None \<Rightarrow> start (seg w))
            (case b of Some x \<Rightarrow> x | None \<Rightarrow> end_t (seg w))) \<and>
   (constructor dk fresh options = Inr s \<longrightarrow>
      start s = opt_start options \<and> end_t s = opt_end options) \<and>
   (updateable s' \<or> upd_updateable p \<noteq> Some False \<longrightarrow>
      start (update p s') = (case upd_start p of Some x \<Rightarrow> x | None \<Rightarrow> start s') \<and>
      end_t (update p s') = (case upd_end p of Some x \<Rightarrow> x | None \<Rightarrow> end_t s'))"
proof -
  have p: "updateable (seg w) \<Longrightarrow>
      start (seg (updatePosition a b w)) =
        min (case a of Some x \<Rightarrow> x | None \<Rightarrow> start (seg w))
            (case b of Some x \<Rightarrow> x | None \<Rightarrow> end_t (seg w)) \<and>
      end_t (seg (updatePosition a b w)) =
        max (case a of Some x \<Rightarrow> x | None \<Rightarrow> start (seg w))
            (case b of Some x \<Rightarrow> x | None \<Rightarrow> end_t (seg w))"
    by (simp add: updatePosition_def invokeUpdate_def Let_def min_def max_def)
  have c: "constructor dk fresh options = Inr s \<Longrightarrow>
      start s = opt_start options \<and> end_t s = opt_end options"
    by (auto simp: constructor_def split: if_splits)
  have u: "updateable s' \<or> upd_updateable p \<noteq> Some False \<Longrightarrow>
      start (update p s') = (case upd_start p of Some x \<Rightarrow> x | None \<Rightarrow> start s') \<and>
      end_t (update p s') = (case upd_end p of Some x \<Rightarrow> x | None \<Rightarrow> end_t s')"
    by (simp add: update_unfold)
  show ?thesis
    using p c u by auto
qed

theorem updatePosition_orders_bounds_witness:
  "updateable (seg exampleWorld) \<and>
   start (seg (updatePosition (Some 40) (Some 30) exampleWorld)) = 30 \<and>
   end_t (seg (updatePosition (Some 40) (Some 30) exampleWorld)) = 40 \<and>
   start (seg (updatePosition (Some 40) None exampleWorld)) = 20 \<and>
   end_t (seg (updatePosition (Some 40) None exampleWorld)) = 40 \<and>
   constructor scaleDarken ''seg01'' exampleOptions = Inr exampleSegment \<and>
   start exampleSegment = 10 \<and> end_t exampleSegment = 20 \<and>
   updateable exampleSegment \<and>
   start (update startOnly exampleSegment) = 5 \<and> end_t (update startOnly exampleSegment) = 20"
  using updatePosition_orders_bounds [of exampleWorld "Some 40" "Some 30" scaleDarken "''seg01''"
      exampleOptions exampleSegment exampleSegment startOnly]
    updatePosition_orders_bounds [of exampleWorld "Some 40" None scaleDarken "''seg01''"
      exampleOptions exampleSegment exampleSegment startOnly]
    example_built
  by (simp add: exampleWorld_def exampleSegment_def exampleOptions_def startOnly_def noOptions_def)

text \<open>
  Claim C1 as stated fails: constructed from \<^verbatim>\<open>{start: 20, end: 10}\<close> the segment has
  \<open>start = 20\<close> and \<open>end = 10\<close>, and \<^verbatim>\<open>update({start: 30})\<close> on the example segment
  leaves \<open>start = 30\<close> and \<open>end = 20\<close>.
\<close>

theorem bounds_order_counterexample:
  "constructor scaleDarken ''seg01'' reversedOptions =
     Inr (exampleSegment\<lparr>start := 20, end_t := 10\<rparr>) \<and>
   \<not> start (exampleSegment\<lparr>start := 20, end_t := 10\<rparr>) \<le>
       end_t (exampleSegment\<lparr>start := 20, end_t := 10\<rparr>) \<and>
   start (update (noOptions\<lparr>upd_start := Some 30\<rparr>) exampleSegment) = 30 \<and>
   end_t (update (noOptions\<lparr>upd_start := Some 30\<rparr>) exampleSegment) = 20 \<and>
   \<not> start (update (noOptions\<lparr>upd_start := Some 30\<rparr>) exampleSegment) \<le>
       end_t (update (noOptions\<lparr>upd_start := Some 30\<rparr>) exampleSegment)"
  by (simp add: constructor_def reversedOptions_def exampleOptions_def exampleSegment_def
      mk_rgba_def clone_def darken_def update_def noOptions_def)

subsection \<open>A move stays on the waveform and keeps the width up to rounding\<close>




subsection \<open>A resize keeps the other bound until the edges cross\<close>

text \<open>
  Claim C3, as amended. The claim says that a left-edge resize never changes \<open>end\<close> and
  a right-edge resize never changes \<open>start\<close>, even when the moving edge is dragged past
  the fixed one. The code lets the moving edge pass: \<^verbatim>\<open>updatePosition\<close> then swaps the
  pair. With the bounds recorded at pointer-down in \<open>0 \<le> start \<le> end \<le> duration\<close> and
  \<open>t\<close> the time delta of the pointer: in a left-edge resize the committed \<open>end\<close> is the
  recorded \<open>end\<close> as long as \<open>start + t \<le> end\<close>, and once \<open>start + t\<close> exceeds it the
  recorded \<open>end\<close> is committed as \<open>start\<close>; in a right-edge resize the committed
  \<open>start\<close> is the recorded \<open>start\<close> as long as \<open>start \<le> end + t\<close>, and once \<open>end + t\<close> is
  below it the recorded \<open>start\<close> is committed as \<open>end\<close>. The moving bound is the moved
  value clamped to \<open>[0, duration]\<close>.
\<close>

theorem edge_resize_keeps_fixed_bound:
  assumes "updateable (seg w)"
    and "draggingStartPosition (seg w) = Some d"
    and "0 \<le> grabStart d" and "grabStart d \<le> grabEnd d" and "grabEnd d \<le> duration v"
    and "zoomedWidth v \<noteq> 0"
  shows
    "(isLeftEdge (isGrabbingEdge (seg w)) \<and> \<not> isRightEdge (isGrabbingEdge (seg w)) \<longrightarrow>
        (grabStart d + dragSeconds v e d \<le> grabEnd d \<longrightarrow>
           end_t (seg (handleDrag v e w)) = grabEnd d \<and>
           start (seg (handleDrag v e w)) = clamp (grabStart d + dragSeconds v e d) 0 (duration v)) \<and>
        (grabEnd d < grabStart d + dragSeconds v e d \<longrightarrow>
           start (seg (handleDrag v e w)) = grabEnd d \<and>
           end_t (seg (handleDrag v e w)) = clamp (grabStart d + dragSeconds v e d) 0 (duration v))) \<and>
     (isRightEdge (isGrabbingEdge (seg w)) \<and> \<not> isLeftEdge (isGrabbingEdge (seg w)) \<longrightarrow>
        (grabStart d \<le> grabEnd d + dragSeconds v e d \<longrightarrow>
           start (seg (handleDrag v e w)) = grabStart d \<and>
           end_t (seg (handleDrag v e w)) = clamp (grabEnd d + dragSeconds v e d) 0 (duration v)) \<and>
        (grabEnd d + dragSeconds v e d < grabStart d \<longrightarrow>
           end_t (seg (handleDrag v e w)) = grabStart d \<and>
           start (seg (handleDrag v e w)) = clamp (grabEnd d + dragSeconds v e d) 0 (duration v)))"
proof -
  define t where "t = dragSeconds v e d"
  have left: "start (seg (handleDrag v e w)) =
        min (clamp (grabStart d + t) 0 (duration v)) (clamp (grabEnd d) 0 (duration v)) \<and>
      end_t (seg (handleDrag v e w)) =
        max (clamp (grabStart d + t) 0 (duration v)) (clamp (grabEnd d) 0 (duration v))"
    if "isLeftEdge (isGrabbingEdge (seg w))" "\<not> isRightEdge (isGrabbingEdge (seg w))"
    using that by (simp add: handleDrag_seg [OF assms(1,2)] Let_def t_def)
  have right: "start (seg (handleDrag v e w)) =
        min (clamp (grabStart d) 0 (duration v))
          (clamp (clamp (grabEnd d + t)
             (clamp (grabStart d + t) 0 (duration v - (grabEnd d - grabStart d))) (duration v))
             0 (duration v)) \<and>
      end_t (seg (handleDrag v e w)) =
        max (clamp (grabStart d) 0 (duration v))
          (clamp (clamp (grabEnd d + t)
             (clamp (grabStart d + t) 0 (duration v - (grabEnd d - grabStart d))) (duration v))
             0 (duration v))"
    if "isRightEdge (isGrabbingEdge (seg w))" "\<not> isLeftEdge (isGrabbingEdge (seg w))"
    using that by (simp add: handleDrag_seg [OF assms(1,2)] Let_def t_def)
  have l: "min (clamp (grabStart d + t) 0 (duration v)) (clamp (grabEnd d) 0 (duration v)) =
        (if grabStart d + t \<le> grabEnd d then clamp (grabStart d + t) 0 (duration v) else grabEnd d) \<and>
      max (clamp (grabStart d + t) 0 (duration v)) (clamp (grabEnd d) 0 (duration v)) =
        (if grabStart d + t \<le> grabEnd d then grabEnd d else clamp (grabStart d + t) 0 (duration v))"
    using assms(3,4,5) by (auto simp: clamp_def min_def max_def)
  have r: "min (clamp (grabStart d) 0 (duration v))
          (clamp (clamp (grabEnd d + t)
             (clamp (grabStart d + t) 0 (duration v - (grabEnd d - grabStart d))) (duration v))
             0 (duration v)) =
        (if grabStart d \<le> grabEnd d + t then grabStart d else clamp (grabEnd d + t) 0 (duration v)) \<and>
      max (clamp (grabStart d) 0 (duration v))
          (clamp (clamp (grabEnd d + t)
             (clamp (grabStart d + t) 0 (duration v - (grabEnd d - grabStart d))) (duration v))
             0 (duration v)) =
        (if grabStart d \<le> grabEnd d + t then clamp (grabEnd d + t) 0 (duration v) else grabStart d)"
    using assms(3,4,5) by (auto simp: clamp_def min_def max_def)
  show ?thesis
    using left right l r unfolding t_def [symmetric] by auto
qed

theorem edge_resize_keeps_fixed_bound_witness:
  "updateable (seg leftGrab) \<and>
   isLeftEdge (isGrabbingEdge (seg leftGrab)) \<and> \<not> isRightEdge (isGrabbingEdge (seg leftGrab)) \<and>
   dragSeconds exampleView (pointerAt (- 50) 0)
     \<lparr>grabPosition = 100, grabStart = 10, grabEnd = 20\<rparr> = - 10 \<and>
   start (seg (handleDrag exampleView (pointerAt (- 50) 0) leftGrab)) = 0 \<and>
   end_t (seg (handleDrag exampleView (pointerAt (- 50) 0) leftGrab)) = 20 \<and>
   dragSeconds exampleView (pointerAt 250 25)
     \<lparr>grabPosition = 100, grabStart = 10, grabEnd = 20\<rparr> = 15 \<and>
   start (seg (handleDrag exampleView (pointerAt 250 25) leftGrab)) = 20 \<and>
   end_t (seg (handleDrag exampleView (pointerAt 250 25) leftGrab)) = 25 \<and>
   isRightEdge (isGrabbingEdge (seg rightGrab)) \<and> \<not> isLeftEdge (isGrabbingEdge (seg rightGrab)) \<and>
   start (seg (handleDrag exampleView (pointerAt 250 25) rightGrab)) = 10 \<and>
   end_t (seg (handleDrag exampleView (pointerAt 250 25) rightGrab)) = 25 \<and>
   start (seg (handleDrag exampleView (pointerAt 50 5) rightGrab)) = 5 \<and>
   end_t (seg (handleDrag exampleView (pointerAt 50 5) rightGrab)) = 10"
  using edge_resize_keeps_fixed_bound [of leftGrab
      "\<lparr>grabPosition = 100, grabStart = 10, grabEnd = 20\<rparr>" exampleView "pointerAt (- 50) 0"]
    edge_resize_keeps_fixed_bound [of leftGrab
      "\<lparr>grabPosition = 100, grabStart = 10, grabEnd = 20\<rparr>" exampleView "pointerAt 250 25"]
    edge_resize_keeps_fixed_bound [of rightGrab
      "\<lparr>grabPosition = 200, grabStart = 10, grabEnd = 20\<rparr>" exampleView "pointerAt 250 25"]
    edge_resize_keeps_fixed_bound [of rightGrab
      "\<lparr>grabPosition = 200, grabStart = 10, grabEnd = 20\<rparr>" exampleView "pointerAt 50 5"]
  by (simp add: leftGrab_eq rightGrab_eq exampleWorld_def exampleSegment_def exampleView_def
      pointerAt_def dragSeconds_def pixelsToTime_def clamp_def)

text \<open>
  Claim C3 as stated fails: with the left edge of the example segment grabbed at
  pixel 100, a pointer at pixel 250 (15 seconds to the right) commits
  \<^verbatim>\<open>{start: 20, end: 25}\<close>, so \<open>end\<close> is not the recorded 20; with the right edge grabbed
  at pixel 200, a pointer at pixel 50 (15 seconds to the left) commits
  \<^verbatim>\<open>{start: 5, end: 10}\<close>, so \<open>start\<close> is not the recorded 10.
\<close>

theorem edge_resize_counterexample:
  "updateable (seg leftGrab) \<and>
   isLeftEdge (isGrabbingEdge (seg leftGrab)) \<and> \<not> isRightEdge (isGrabbingEdge (seg leftGrab)) \<and>
   draggingStartPosition (seg leftGrab) = Some \<lparr>grabPosition = 100, grabStart = 10, grabEnd = 20\<rparr> \<and>
   start (seg (handleDrag exampleView (pointerAt 250 25) leftGrab)) = 20 \<and>
   end_t (seg (handleDrag exampleView (pointerAt 250 25) leftGrab)) = 25 \<and>
   end_t (seg (handleDrag exampleView (pointerAt 250 25) leftGrab)) \<noteq> 20 \<and>
   updateable (seg rightGrab) \<and>
   isRightEdge (isGrabbingEdge (seg rightGrab)) \<and> \<not> isLeftEdge (isGrabbingEdge (seg rightGrab)) \<and>
   draggingStartPosition (seg rightGrab) = Some \<lparr>grabPosition = 200, grabStart = 10, grabEnd = 20\<rparr> \<and>
   start (seg (handleDrag exampleView (pointerAt 50 5) rightGrab)) = 5 \<and>
   end_t (seg (handleDrag exampleView (pointerAt 50 5) rightGrab)) = 10 \<and>
   start (seg (handleDrag exampleView (pointerAt 50 5) rightGrab)) \<noteq> 10"
  by (simp add: leftGrab_eq rightGrab_eq exampleWorld_def exampleSegment_def exampleView_def
      pointerAt_def handleDrag_def updatePosition_def invokeUpdate_def switchCursor_def
      pixelsToTime_def clamp_def Let_def)

subsection \<open>The guard of update\<close>

text \<open>
  Claim C4, as amended. The claim says that \<^verbatim>\<open>update(partial)\<close> on a non-updateable
  segment changes nothing unless the options set \<open>updateable\<close> to true. The guard of the
  code is narrower: \<^verbatim>\<open>update\<close> on a non-updateable segment changes nothing when the
  options explicitly set \<open>updateable\<close> to false. In every other case (the segment is
  updateable, or the options set \<open>updateable\<close> to true, or they do not give it) each of
  \<open>updateable\<close>, \<open>deleteable\<close>, \<open>start\<close>, \<open>end\<close>, \<open>selected\<close>, \<open>visible\<close> and \<open>color\<close>
  takes the value given where one is given, and nothing else changes.
\<close>

theorem update_applies_given_fields:
  "(\<not> updateable s \<and> upd_updateable p = Some False \<longrightarrow> update p s = s) \<and>
   (updateable s \<or> upd_updateable p \<noteq> Some False \<longrightarrow>
      update p s =
        s\<lparr>updateable := (case upd_updateable p of Some u \<Rightarrow> u | None \<Rightarrow> updateable s),
          deleteable := (case upd_deleteable p of Some x \<Rightarrow> x | None \<Rightarrow> deleteable s),
          start := (case upd_start p of Some x \<Rightarrow> x | None \<Rightarrow> start s),
          end_t := (case upd_end p of Some x \<Rightarrow> x | None \<Rightarrow> end_t s),
          selected := (case upd_selected p of Some x \<Rightarrow> x | None \<Rightarrow> selected s),
          visible := (case upd_visible p of Some x \<Rightarrow> x | None \<Rightarrow> visible s),
          color := (case upd_color p of Some c \<Rightarrow> mk_rgba c | None \<Rightarrow> color s)\<rparr>)"
proof -
  have r: "\<not> updateable s \<and> upd_updateable p = Some False \<Longrightarrow> update p s = s"
    by (simp add: update_def)
  have u: "updateable s \<or> upd_updateable p \<noteq> Some False \<Longrightarrow>
      update p s =
        s\<lparr>updateable := (case upd_updateable p of Some u \<Rightarrow> u | None \<Rightarrow> updateable s),
          deleteable := (case upd_deleteable p of Some x \<Rightarrow> x | None \<Rightarrow> deleteable s),
          start := (case upd_start p of Some x \<Rightarrow> x | None \<Rightarrow> start s),
          end_t := (case upd_end p of Some x \<Rightarrow> x | None \<Rightarrow> end_t s),
          selected := (case upd_selected p of Some x \<Rightarrow> x | None \<Rightarrow> selected s),
          visible := (case upd_visible p of Some x \<Rightarrow> x | None \<Rightarrow> visible s),
          color := (case upd_color p of Some c \<Rightarrow> mk_rgba c | None \<Rightarrow> color s)\<rparr>"
    by (rule update_unfold)
  show ?thesis
    using r u by blast
qed

theorem update_applies_given_fields_witness:
  "\<not> updateable lockedSegment \<and>
   upd_updateable (noOptions\<lparr>upd_updateable := Some False, upd_start := Some 5\<rparr>) = Some False \<and>
   update (noOptions\<lparr>upd_updateable := Some False, upd_start := Some 5\<rparr>) lockedSegment =
     lockedSegment \<and>
   upd_updateable (noOptions\<lparr>upd_updateable := Some True, upd_start := Some 5\<rparr>) \<noteq> Some False \<and>
   update (noOptions\<lparr>upd_updateable := Some True, upd_start := Some 5\<rparr>) lockedSegment =
     exampleSegment\<lparr>start := 5\<rparr> \<and>
   updateable exampleSegment \<and>
   update (noOptions\<lparr>upd_updateable := Some False, upd_end := Some 30\<rparr>) exampleSegment =
     exampleSegment\<lparr>updateable := False, end_t := 30\<rparr>"
  using update_applies_given_fields [of lockedSegment
      "noOptions\<lparr>upd_updateable := Some False, upd_start := Some 5\<rparr>"]
    update_applies_given_fields [of lockedSegment
      "noOptions\<lparr>upd_updateable := Some True, upd_start := Some 5\<rparr>"]
    update_applies_given_fields [of exampleSegment
      "noOptions\<lparr>upd_updateable := Some False, upd_end := Some 30\<rparr>"]
  by (simp add: lockedSegment_def exampleSegment_def noOptions_def)

text \<open>
  Claim C4 as stated fails: on the example segment made non-updateable,
  \<^verbatim>\<open>update({start: 5})\<close>, which does not set \<open>updateable\<close>, moves \<open>start\<close> from 10 to 5.
\<close>

theorem update_guard_counterexample:
  "\<not> updateable lockedSegment \<and> upd_updateable startOnly \<noteq> Some True \<and>
   start (update startOnly lockedSegment) = 5 \<and> start lockedSegment = 10 \<and>
   update startOnly lockedSegment \<noteq> lockedSegment"
proof -
  have a: "start (update startOnly lockedSegment) = 5"
    by (simp add: update_def startOnly_def noOptions_def lockedSegment_def exampleSegment_def)
  have b: "start lockedSegment = 10"
    by (simp add: lockedSegment_def exampleSegment_def)
  have c: "update startOnly lockedSegment \<noteq> lockedSegment"
    using a b by auto
  show ?thesis
    using a b c by (simp add: startOnly_def noOptions_def lockedSegment_def exampleSegment_def)
qed

subsection \<open>A destroyed segment\<close>

text \<open>
  Claim C5, as amended. The claim says that after \<^verbatim>\<open>destroy()\<close> every mutation is
  rejected. After \<^verbatim>\<open>destroy()\<close> on a deleteable segment the segment is marked destroyed,
  its local listeners are released, and a further \<^verbatim>\<open>destroy()\<close> is rejected: it changes
  nothing. No other operation reads the mark: \<^verbatim>\<open>update\<close>, \<^verbatim>\<open>updatePosition\<close>,
  \<^verbatim>\<open>updateColor\<close>, \<^verbatim>\<open>setVisibility\<close>, \<^verbatim>\<open>handleSelected\<close> and \<^verbatim>\<open>handleHighlighted\<close> change
  the fields of a destroyed segment exactly as they change those of the segment before
  it was destroyed.
\<close>

theorem mutators_ignore_destroyed:
  assumes "deleteable (seg w)" and "\<not> isDestroyed (seg w)"
  shows "isDestroyed (seg (destroy notify w)) \<and> listeners (seg (destroy notify w)) = [] \<and>
     destroy notify' (destroy notify w) = destroy notify w \<and>
     update p (seg (destroy notify w)) = events_destroy (update p (seg w)) \<and>
     seg (updatePosition a b (destroy notify w)) = events_destroy (seg (updatePosition a b w)) \<and>
     seg (updateColor dk c (destroy notify w)) = events_destroy (seg (updateColor dk c w)) \<and>
     seg (setVisibility x (destroy notify w)) = events_destroy (seg (setVisibility x w)) \<and>
     seg (handleSelected dk sel (destroy notify w)) =
       events_destroy (seg (handleSelected dk sel w)) \<and>
     seg (handleHighlighted dk hl (destroy notify w)) =
       events_destroy (seg (handleHighlighted dk hl w))"
proof -
  define w' where "w' = destroy notify w"
  have sg: "seg w' = events_destroy (seg w)"
    unfolding w'_def by (rule destroy_seg [OF assms])
  have 1: "isDestroyed (seg w') \<and> listeners (seg w') = []"
    by (simp add: sg events_destroy_def)
  have 2: "destroy notify' w' = w'"
    using 1 by (simp add: destroy_def)
  have 3: "update p (seg w') = events_destroy (update p (seg w))"
    by (simp add: sg update_events_destroy)
  have 4: "seg (updatePosition a b w') = events_destroy (seg (updatePosition a b w))"
    by (simp add: updatePosition_def invokeUpdate_def sg events_destroy_def Let_def
        cong: option.case_cong)
  have 5: "seg (updateColor dk c w') = events_destroy (seg (updateColor dk c w))"
    by (simp add: updateColor_def setColor_def invokeUpdate_def sg events_destroy_def)
  have 6: "seg (setVisibility x w') = events_destroy (seg (setVisibility x w))"
    by (simp add: setVisibility_def invokeUpdate_def sg events_destroy_def)
  have 7: "seg (handleSelected dk sel w') = events_destroy (seg (handleSelected dk sel w))"
    by (simp add: handleSelected_def setColorDarken_def invokeUpdate_def sg events_destroy_def
        Let_def cong: option.case_cong)
  have 8: "seg (handleHighlighted dk hl w') = events_destroy (seg (handleHighlighted dk hl w))"
    by (simp add: handleHighlighted_def setColorDarken_def invokeUpdate_def sg events_destroy_def
        Let_def cong: option.case_cong)
  show ?thesis
    using 1 2 3 4 5 6 7 8 unfolding w'_def by blast
qed

theorem mutators_ignore_destroyed_witness:
  "deleteable (seg exampleWorld) \<and> \<not> isDestroyed (seg exampleWorld) \<and>
   isDestroyed (seg (destroy True exampleWorld)) \<and>
   destroy True (destroy True exampleWorld) = destroy True exampleWorld \<and>
   seg (updatePosition (Some 30) (Some 40) (destroy True exampleWorld)) =
     exampleSegment\<lparr>start := 30, end_t := 40, listeners := [], isDestroyed := True\<rparr> \<and>
   seg (setVisibility False (destroy True exampleWorld)) =
     exampleSegment\<lparr>visible := False, listeners := [], isDestroyed := True\<rparr>"
  using mutators_ignore_destroyed [of exampleWorld True True noOptions "Some 30" "Some 40"
      scaleDarken "(0, 0, 0, 1)" False None None]
  by (simp add: exampleWorld_def exampleSegment_def events_destroy_def updatePosition_def
      setVisibility_def invokeUpdate_def)

text \<open>
  Claim C5 as stated fails: after \<^verbatim>\<open>destroy()\<close> on the example segment,
  \<^verbatim>\<open>updatePosition(30, 40)\<close> moves the bounds from 10 and 20 to 30 and 40,
  \<^verbatim>\<open>update({start: 5})\<close> sets \<open>start\<close> to 5 and \<^verbatim>\<open>setVisibility(false)\<close> hides the segment.
\<close>

theorem destroyed_segment_counterexample:
  "deleteable (seg exampleWorld) \<and>
   isDestroyed (seg (destroy True exampleWorld)) \<and>
   start (seg (destroy True exampleWorld)) = 10 \<and>
   end_t (seg (destroy True exampleWorld)) = 20 \<and>
   start (seg (updatePosition (Some 30) (Some 40) (destroy True exampleWorld))) = 30 \<and>
   end_t (seg (updatePosition (Some 30) (Some 40) (destroy True exampleWorld))) = 40 \<and>
   start (update startOnly (seg (destroy True exampleWorld))) = 5 \<and>
   visible (seg (destroy True exampleWorld)) \<and>
   \<not> visible (seg (setVisibility False (destroy True exampleWorld)))"
  by (simp add: exampleWorld_def exampleSegment_def destroy_def remove_def events_destroy_def
      updatePosition_def setVisibility_def invokeUpdate_def update_def startOnly_def noOptions_def)

subsection \<open>Construction fails exactly on a negative bound\<close>

text \<open>
  Claim C6. For every options object the constructor throws if and only if
  \<open>options.start < 0\<close> or \<open>options.end < 0\<close>; for all non-negative \<open>start\<close> and \<open>end\<close>
  it succeeds and the segment's \<open>start\<close> and \<open>end\<close> are the values given.
\<close>

theorem constructor_throws_iff_negative:
  "((\<exists>e. constructor dk fresh options = Inl e) \<longleftrightarrow>
      (opt_start options < 0 \<or> opt_end options < 0)) \<and>
   (0 \<le> opt_start options \<and> 0 \<le> opt_end options \<longrightarrow>
      (\<exists>s. constructor dk fresh options = Inr s \<and>
           start s = opt_start options \<and> end_t s = opt_end options))"
  by (auto simp: constructor_def)

theorem constructor_throws_iff_negative_witness:
  "(0::real) \<le> opt_start exampleOptions \<and> 0 \<le> opt_end exampleOptions \<and>
   (\<exists>s. constructor scaleDarken ''seg01'' exampleOptions = Inr s \<and> start s = 10 \<and> end_t s = 20) \<and>
   (opt_start (exampleOptions\<lparr>opt_start := - 1\<rparr>) < 0 \<and>
    (\<exists>e. constructor scaleDarken ''seg01'' (exampleOptions\<lparr>opt_start := - 1\<rparr>) = Inl e))"
  using constructor_throws_iff_negative [of scaleDarken "''seg01''" exampleOptions]
    constructor_throws_iff_negative [of scaleDarken "''seg01''" "exampleOptions\<lparr>opt_start := - 1\<rparr>"]
  by (simp add: exampleOptions_def)

subsection \<open>The geometry getters\<close>

text \<open>
  Claim C7. The getters satisfy
  \<open>xStart = ((start / duration) * viewportWidth - viewportWidth * scrollPosition) * zoom\<close>,
  \<open>width = ((end - start) / duration * viewportWidth) * zoom\<close> and
  \<open>xEnd = xStart + width\<close>; for a segment \<^verbatim>\<open>{start: 10, end: 20}\<close> with duration 100,
  zoom 1, viewport width 1000 and scroll position 0 they are 100, 100 and 200.
\<close>

theorem geometry_getters:
  "xStart v s = ((start s / duration v) * visWidth v - visWidth v * scrollLeft v) * zoom v \<and>
   width v s = ((end_t s - start s) / duration v * visWidth v) * zoom v \<and>
   xEnd v s = xStart v s + width v s \<and>
   (start s = 10 \<and> end_t s = 20 \<and> duration v = 100 \<and> zoom v = 1 \<and> visWidth v = 1000 \<and>
    scrollLeft v = 0 \<longrightarrow> xStart v s = 100 \<and> width v s = 100 \<and> xEnd v s = 200)"
  by (simp add: xStart_def width_def xEnd_def)

theorem geometry_getters_witness:
  "xStart exampleView exampleSegment = 100 \<and> width exampleView exampleSegment = 100 \<and>
   xEnd exampleView exampleSegment = 200"
  using geometry_getters [of exampleView exampleSegment]
  by (simp add: exampleView_def exampleSegment_def)

subsection \<open>Selecting and deselecting\<close>

text \<open>
  Claim C8. On an updateable segment whose colour is at its base value,
  \<^verbatim>\<open>handleSelected(true)\<close> followed by \<^verbatim>\<open>handleSelected(false)\<close> returns the colour to
  that base value, with \<open>selected\<close> false afterwards. In between the segment is selected
  and its colour is the base darkened by 0.5.
\<close>

theorem select_deselect_restores_color:
  assumes "updateable (seg w)" and "rgba (color (seg w)) = base (color (seg w))"
  shows "selected (seg (handleSelected dk (Some True) w)) \<and>
         rgba (color (seg (handleSelected dk (Some True) w))) = dk 0.5 (base (color (seg w))) \<and>
         color (seg (handleSelected dk (Some False) (handleSelected dk (Some True) w))) =
           color (seg w) \<and>
         \<not> selected (seg (handleSelected dk (Some False) (handleSelected dk (Some True) w)))"
  using assms
  by (simp add: handleSelected_def invokeUpdate_def setColorDarken_def darken_def reset_def Let_def)

theorem select_deselect_restores_color_witness:
  "updateable (seg exampleWorld) \<and>
   rgba (color (seg exampleWorld)) = base (color (seg exampleWorld)) \<and>
   rgba (color (seg (handleSelected scaleDarken (Some True) exampleWorld))) = (102, 102, 102, 1) \<and>
   color (seg (handleSelected scaleDarken (Some False)
      (handleSelected scaleDarken (Some True) exampleWorld))) =
     \<lparr>base = (204, 204, 204, 1), rgba = (204, 204, 204, 1)\<rparr> \<and>
   \<not> selected (seg (handleSelected scaleDarken (Some False)
      (handleSelected scaleDarken (Some True) exampleWorld)))"
  using select_deselect_restores_color [of exampleWorld scaleDarken]
  by (simp add: exampleWorld_def exampleSegment_def)

subsection \<open>Removal is gated by deleteable\<close>

text \<open>
  Claim C9. On a segment with \<open>deleteable = false\<close>, \<^verbatim>\<open>remove()\<close> invokes no
  \<^verbatim>\<open>regionRemoved\<close> and changes nothing; on a segment with \<open>deleteable = true\<close> it invokes
  the global \<^verbatim>\<open>regionRemoved\<close> exactly once and changes no field of the segment.
\<close>

theorem remove_notifies_iff_deleteable:
  "(\<not> deleteable (seg w) \<longrightarrow> remove w = w) \<and>
   (deleteable (seg w) \<longrightarrow>
      remove w = w\<lparr>invoked := invoked w @ [Global RegionRemoved]\<rparr> \<and> seg (remove w) = seg w)"
  by (simp add: remove_def)

theorem remove_notifies_iff_deleteable_witness:
  "deleteable (seg exampleWorld) \<and>
   invoked (remove exampleWorld) = [Global RegionRemoved] \<and>
   seg (remove exampleWorld) = seg exampleWorld \<and>
   \<not> deleteable (seg (exampleWorld\<lparr>seg := exampleSegment\<lparr>deleteable := False\<rparr>\<rparr>)) \<and>
   remove (exampleWorld\<lparr>seg := exampleSegment\<lparr>deleteable := False\<rparr>\<rparr>) =
     exampleWorld\<lparr>seg := exampleSegment\<lparr>deleteable := False\<rparr>\<rparr>"
  using remove_notifies_iff_deleteable [of exampleWorld]
    remove_notifies_iff_deleteable [of "exampleWorld\<lparr>seg := exampleSegment\<lparr>deleteable := False\<rparr>\<rparr>"]
  by (simp add: exampleWorld_def exampleSegment_def)

subsection \<open>The constructor and deleteable\<close>

text \<open>
  Claim C10. The constructor ignores \<open>options.deleteable\<close>: whatever the options give for
  it, the result is the same segment, with \<open>deleteable = true\<close>. On such a segment
  \<^verbatim>\<open>remove()\<close> invokes \<^verbatim>\<open>regionRemoved\<close> and \<^verbatim>\<open>destroy()\<close> destroys it, until an
  \<^verbatim>\<open>update\<close> that is not refused clears \<open>deleteable\<close>: then both do nothing.
\<close>

theorem constructor_ignores_deleteable:
  assumes "constructor dk fresh options = Inr s" and "seg w = s"
  shows "deleteable s \<and>
         constructor dk fresh (options\<lparr>opt_deleteable := x\<rparr>) = Inr s \<and>
         remove w = w\<lparr>invoked := invoked w @ [Global RegionRemoved]\<rparr> \<and>
         isDestroyed (seg (destroy notify w)) \<and>
         (upd_deleteable p = Some False \<and> (updateable s \<or> upd_updateable p \<noteq> Some False) \<longrightarrow>
            \<not> deleteable (update p s) \<and>
            remove (w\<lparr>seg := update p s\<rparr>) = w\<lparr>seg := update p s\<rparr> \<and>
            destroy notify (w\<lparr>seg := update p s\<rparr>) = w\<lparr>seg := update p s\<rparr>)"
proof -
  have d: "deleteable s" and nd: "\<not> isDestroyed s"
    using assms(1) by (auto simp: constructor_def split: if_splits)
  have c: "constructor dk fresh (options\<lparr>opt_deleteable := x\<rparr>) = Inr s"
    using assms(1) by (auto simp: constructor_def split: if_splits)
  have r: "remove w = w\<lparr>invoked := invoked w @ [Global RegionRemoved]\<rparr>"
    using d assms(2) by (simp add: remove_def)
  have y: "isDestroyed (seg (destroy notify w))"
    using d nd assms(2) by (simp add: destroy_def remove_def events_destroy_def)
  have u: "\<not> deleteable (update p s)"
    if "upd_deleteable p = Some False" "updateable s \<or> upd_updateable p \<noteq> Some False"
    using that by (simp add: update_unfold)
  show ?thesis
    using d c r y u by (auto simp: remove_def destroy_def)
qed

theorem constructor_ignores_deleteable_witness:
  "constructor scaleDarken ''seg01'' (exampleOptions\<lparr>opt_deleteable := Some False\<rparr>) =
     Inr exampleSegment \<and>
   deleteable exampleSegment \<and>
   invoked (remove exampleWorld) = [Global RegionRemoved] \<and>
   isDestroyed (seg (destroy True exampleWorld)) \<and>
   upd_deleteable (noOptions\<lparr>upd_deleteable := Some False\<rparr>) = Some False \<and>
   updateable exampleSegment \<and>
   invoked (remove (exampleWorld
      \<lparr>seg := update (noOptions\<lparr>upd_deleteable := Some False\<rparr>) exampleSegment\<rparr>)) = [] \<and>
   \<not> isDestroyed (seg (destroy True (exampleWorld
      \<lparr>seg := update (noOptions\<lparr>upd_deleteable := Some False\<rparr>) exampleSegment\<rparr>)))"
  using constructor_ignores_deleteable [OF example_built, of exampleWorld "Some False" True
      "noOptions\<lparr>upd_deleteable := Some False\<rparr>"]
  by (simp add: exampleWorld_def exampleSegment_def noOptions_def update_def)

end
